theory Spec2Isabelle
  imports Complex_Main
begin

section \<open>Floating-point values as numpy computes with them\<close>

text \<open>
  The jet model of \<^verbatim>\<open>src/effluent/jet.py\<close> computes with numpy's binary64 values.
  Under numpy's default error state no arithmetic operation of the step raises: a
  division by zero or the square root of a negative number gives an infinity or NaN
  (with a warning) and the computation goes on; every division of the step has a numpy
  scalar as its divisor, also when the arguments are Python floats, so Python's
  \<^verbatim>\<open>ZeroDivisionError\<close> never arises. The model keeps these special values
  and the sign of zero, and idealises rounding: a finite result is the exact real
  number, so neither rounding error nor overflow or underflow is represented.
  \<open>Fin 0\<close> is the positive zero, \<open>NegZero\<close> the negative one.
\<close>

datatype npfloat = Fin real | NegZero | PosInf | NegInf | NaN

fun val :: "npfloat \<Rightarrow> real" where
  "val (Fin r) = r"
| "val NegZero = 0"
| "val PosInf = 0"
| "val NegInf = 0"
| "val NaN = 0"

fun is_finite :: "npfloat \<Rightarrow> bool" where
  "is_finite (Fin r) = True"
| "is_finite NegZero = True"
| "is_finite PosInf = False"
| "is_finite NegInf = False"
| "is_finite NaN = False"

fun is_inf :: "npfloat \<Rightarrow> bool" where
  "is_inf PosInf = True"
| "is_inf NegInf = True"
| "is_inf (Fin r) = False"
| "is_inf NegZero = False"
| "is_inf NaN = False"

fun is_nan :: "npfloat \<Rightarrow> bool" where
  "is_nan NaN = True"
| "is_nan (Fin r) = False"
| "is_nan NegZero = False"
| "is_nan PosInf = False"
| "is_nan NegInf = False"

fun signbit :: "npfloat \<Rightarrow> bool" where
  "signbit (Fin r) = (r < 0)"
| "signbit NegZero = True"
| "signbit PosInf = False"
| "signbit NegInf = True"
| "signbit NaN = False"

definition zero_signed :: "bool \<Rightarrow> npfloat" where
  "zero_signed s = (if s then NegZero else Fin 0)"

definition inf_signed :: "bool \<Rightarrow> npfloat" where
  "inf_signed s = (if s then NegInf else PosInf)"

definition fin_signed :: "bool \<Rightarrow> real \<Rightarrow> npfloat" where
  \<comment> \<open>a finite result; when it is zero, its sign is the given one\<close>
  "fin_signed s r = (if r = 0 then zero_signed s else Fin r)"

fun np_neg :: "npfloat \<Rightarrow> npfloat" where
  "np_neg (Fin r) = (if r = 0 then NegZero else Fin (- r))"
| "np_neg NegZero = Fin 0"
| "np_neg PosInf = NegInf"
| "np_neg NegInf = PosInf"
| "np_neg NaN = NaN"

fun np_sqrt :: "npfloat \<Rightarrow> npfloat" where
  "np_sqrt (Fin r) = (if r < 0 then NaN else Fin (sqrt r))"
| "np_sqrt NegZero = NegZero"
| "np_sqrt PosInf = PosInf"
| "np_sqrt NegInf = NaN"
| "np_sqrt NaN = NaN"

instantiation npfloat :: "{plus, minus, times, inverse}"
begin

definition plus_npfloat :: "npfloat \<Rightarrow> npfloat \<Rightarrow> npfloat" where
  "plus_npfloat a b =
     (if is_nan a \<or> is_nan b then NaN
      else if is_inf a then (if is_inf b \<and> a \<noteq> b then NaN else a)
      else if is_inf b then b
      else if a = NegZero \<and> b = NegZero then NegZero
      else Fin (val a + val b))"

definition minus_npfloat :: "npfloat \<Rightarrow> npfloat \<Rightarrow> npfloat" where
  "minus_npfloat a b = a + np_neg b"

definition times_npfloat :: "npfloat \<Rightarrow> npfloat \<Rightarrow> npfloat" where
  "times_npfloat a b =
     (if is_nan a \<or> is_nan b then NaN
      else if is_inf a \<or> is_inf b then
        (if (is_finite a \<and> val a = 0) \<or> (is_finite b \<and> val b = 0) then NaN
         else inf_signed (signbit a \<noteq> signbit b))
      else fin_signed (signbit a \<noteq> signbit b) (val a * val b))"

definition divide_npfloat :: "npfloat \<Rightarrow> npfloat \<Rightarrow> npfloat" where
  "divide_npfloat a b =
     (if is_nan a \<or> is_nan b then NaN
      else if is_inf a then (if is_inf b then NaN else inf_signed (signbit a \<noteq> signbit b))
      else if is_inf b then zero_signed (signbit a \<noteq> signbit b)
      else if val b = 0 then
        (if val a = 0 then NaN else inf_signed (signbit a \<noteq> signbit b))
      else fin_signed (signbit a \<noteq> signbit b) (val a / val b))"

definition inverse_npfloat :: "npfloat \<Rightarrow> npfloat" where
  "inverse_npfloat a = divide (Fin 1) a"

instance ..

end

definition np_pi :: npfloat where
  "np_pi = Fin pi"

definition np_dot3 :: "npfloat \<times> npfloat \<times> npfloat \<Rightarrow> npfloat \<times> npfloat \<times> npfloat \<Rightarrow> npfloat" where
  \<comment> \<open>\<^verbatim>\<open>np.dot\<close> of two lists of three numbers\<close>
  "np_dot3 p q =
     (case p of (a1, a2, a3) \<Rightarrow> case q of (b1, b2, b3) \<Rightarrow> a1 * b1 + a2 * b2 + a3 * b3)"

section \<open>One time step of the jet: \<^verbatim>\<open>pipe_discharge_single_timestep\<close>\<close>

text \<open>
  The function returns a tuple of twelve numbers; the record names its components after
  the local variables that are returned, in the order of the tuple.
\<close>

record step_result =
  t_new :: npfloat
  m_new :: npfloat
  c_new :: npfloat
  rho_new :: npfloat
  u_new :: npfloat
  v_new :: npfloat
  w_new :: npfloat
  h_new :: npfloat
  b_new :: npfloat
  x_new :: npfloat
  y_new :: npfloat
  z_new :: npfloat

text \<open>The entrainment block (lines 36 to 41): its local variables, as functions of the arguments they read.\<close>

definition wa :: npfloat where
  \<comment> \<open>ambient vertical velocity\<close>
  "wa = Fin 0"

definition g :: npfloat where
  \<comment> \<open>acceleration of gravity\<close>
  "g = Fin 9.81"

definition alpha_s :: npfloat where
  "alpha_s = np_sqrt (Fin 2) * Fin 0.057"

definition vel :: "npfloat \<Rightarrow> npfloat \<Rightarrow> npfloat \<Rightarrow> npfloat" where
  "vel u v w = np_sqrt (u * u + v * v + w * w)"

definition delta_u :: "npfloat \<Rightarrow> npfloat \<Rightarrow> npfloat \<Rightarrow> npfloat \<Rightarrow> npfloat \<Rightarrow> npfloat" where
  "delta_u u v w ua va = vel u v w - np_dot3 (ua, va, wa) (u, v, w) / vel u v w"

definition dm :: "npfloat \<Rightarrow> npfloat \<Rightarrow> npfloat \<Rightarrow> npfloat \<Rightarrow> npfloat \<Rightarrow> npfloat \<Rightarrow> npfloat \<Rightarrow> npfloat \<Rightarrow> npfloat" where
  "dm dt u v w h b ua va = Fin 2 * np_pi * alpha_s * b * h * delta_u u v w ua va * dt"

definition pipe_discharge_single_timestep ::
  "npfloat \<Rightarrow> npfloat \<Rightarrow> npfloat \<Rightarrow> npfloat \<Rightarrow> npfloat \<Rightarrow> npfloat \<Rightarrow> npfloat \<Rightarrow> npfloat \<Rightarrow>
   npfloat \<Rightarrow> npfloat \<Rightarrow> npfloat \<Rightarrow> npfloat \<Rightarrow> npfloat \<Rightarrow> npfloat \<Rightarrow> npfloat \<Rightarrow> npfloat \<Rightarrow> step_result" where
  "pipe_discharge_single_timestep dt t m c rho u v w h b x y z ua va rho_a =
     (let t' = t + dt;
          d = dm dt u v w h b ua va;
          m' = m + d;
          rho' = (m * rho + d * rho_a) / m';
          c' = m * c / m';
          u' = (m * u + d * ua) / m';
          v' = (m * v + d * va) / m';
          w' = m * w + m' * ((rho' - rho_a) / rho') * g * dt;
          vel' = np_sqrt (u' * u' + v' * v' + w' * w');
          h' = (vel' / vel u v w) * h;
          b' = np_sqrt (m' / (rho' * np_pi * h'));
          x' = x + u' * dt;
          y' = y + v' * dt;
          z' = z + w' * dt
      in \<lparr>t_new = t', m_new = m', c_new = c', rho_new = rho', u_new = u', v_new = v',
          w_new = w', h_new = h', b_new = b', x_new = x', y_new = y', z_new = z'\<rparr>)"

section \<open>The dataset returned by \<^verbatim>\<open>jet\<close> and \<^verbatim>\<open>pipe_discharge\<close>\<close>

text \<open>
  An \<^verbatim>\<open>xr.Variable\<close> is its dimension name, its data and its attributes; an
  \<^verbatim>\<open>xr.Dataset\<close> is its data variables and its coordinates, each a dictionary from
  names to variables, kept in insertion order.
\<close>

record variable =
  dims :: string
  data :: "npfloat list"
  attrs :: "(string \<times> string) list"

record dataset =
  data_vars :: "(string \<times> variable) list"
  coords :: "(string \<times> variable) list"

datatype py_value = PyNone | PyFloat npfloat | PyList "py_value list"

definition jet :: "py_value \<Rightarrow> py_value \<Rightarrow> dataset" where
  "jet time density =
     \<lparr>data_vars = [(''density'', \<lparr>dims = ''time'', data = [], attrs = []\<rparr>)],
      coords = [(''time'', \<lparr>dims = ''time'', data = [], attrs = []\<rparr>)]\<rparr>"

definition pipe_discharge :: dataset where
  "pipe_discharge = jet PyNone PyNone"

section \<open>Arithmetic on finite values\<close>

text \<open>
  On finite operands the operations compute the real result; \<open>val\<close> reads it. A
  quotient needs a nonzero divisor and a square root a non-negative argument.
\<close>

lemma fin_Fin: "is_finite (Fin r)"
  by simp

lemma plus_fin:
  "is_finite a \<Longrightarrow> is_finite b \<Longrightarrow> is_finite (a + b) \<and> val (a + b) = val a + val b"
  by (cases a; cases b) (simp_all add: plus_npfloat_def)


lemma neg_fin: "is_finite a \<Longrightarrow> is_finite (np_neg a) \<and> val (np_neg a) = - val a"
  by (cases a) simp_all

lemma minus_fin:
  "is_finite a \<Longrightarrow> is_finite b \<Longrightarrow> is_finite (a - b) \<and> val (a - b) = val a - val b"
  by (simp add: minus_npfloat_def plus_fin neg_fin)

lemma fin_signed_fin: "is_finite (fin_signed s r) \<and> val (fin_signed s r) = r"
  by (simp add: fin_signed_def zero_signed_def)

lemma times_fin:
  "is_finite a \<Longrightarrow> is_finite b \<Longrightarrow> is_finite (a * b) \<and> val (a * b) = val a * val b"
  by (cases a; cases b) (simp_all add: times_npfloat_def fin_signed_fin)

lemma divide_fin:
  "is_finite a \<Longrightarrow> is_finite b \<Longrightarrow> val b \<noteq> 0
   \<Longrightarrow> is_finite (a / b) \<and> val (a / b) = val a / val b"
  by (cases a; cases b) (simp_all add: divide_npfloat_def fin_signed_fin)

lemma sqrt_fin:
  "is_finite a \<Longrightarrow> 0 \<le> val a \<Longrightarrow> is_finite (np_sqrt a) \<and> val (np_sqrt a) = sqrt (val a)"
  by (cases a) simp_all

lemma divide_zero_zero:
  "is_finite a \<Longrightarrow> is_finite b \<Longrightarrow> val a = 0 \<Longrightarrow> val b = 0 \<Longrightarrow> a / b = NaN"
  by (cases a; cases b) (simp_all add: divide_npfloat_def)

lemma nan_arith:
  "NaN + a = NaN" "a + NaN = NaN" "NaN - a = NaN" "a - NaN = NaN"
  "NaN * a = NaN" "a * NaN = NaN" "NaN / a = NaN" "a / NaN = NaN"
  by (simp_all add: plus_npfloat_def minus_npfloat_def times_npfloat_def divide_npfloat_def)

section \<open>The entrainment block on finite inputs\<close>

lemma alpha_s_fin: "is_finite alpha_s \<and> val alpha_s = sqrt 2 * 0.057"
  by (simp add: alpha_s_def times_npfloat_def fin_signed_def)

lemma vel_fin:
  assumes "is_finite u" "is_finite v" "is_finite w"
  shows "is_finite (vel u v w) \<and> val (vel u v w) = sqrt ((val u)\<^sup>2 + (val v)\<^sup>2 + (val w)\<^sup>2)"
proof -
  let ?s = "u * u + v * v + w * w"
  have s: "is_finite ?s \<and> val ?s = (val u)\<^sup>2 + (val v)\<^sup>2 + (val w)\<^sup>2"
    using assms by (simp add: plus_fin times_fin power2_eq_square)
  then have "0 \<le> val ?s" by simp
  with s show ?thesis unfolding vel_def using sqrt_fin [of ?s] by simp
qed

lemma dot_fin:
  assumes "is_finite u" "is_finite v" "is_finite w" "is_finite ua" "is_finite va"
  shows "is_finite (np_dot3 (ua, va, wa) (u, v, w))
         \<and> val (np_dot3 (ua, va, wa) (u, v, w)) = val ua * val u + val va * val v + 0 * val w"
  using assms by (simp add: np_dot3_def wa_def plus_fin times_fin)

lemma delta_u_fin:
  assumes "is_finite u" "is_finite v" "is_finite w" "is_finite ua" "is_finite va"
    and "val (vel u v w) \<noteq> 0"
  shows "is_finite (delta_u u v w ua va)
         \<and> val (delta_u u v w ua va)
            = val (vel u v w) - (val ua * val u + val va * val v + 0 * val w) / val (vel u v w)"
  using assms vel_fin [of u v w] dot_fin [of u v w ua va]
  by (simp add: delta_u_def minus_fin divide_fin)

lemma dm_fin:
  assumes "is_finite dt" "is_finite b" "is_finite h" "is_finite (delta_u u v w ua va)"
  shows "is_finite (dm dt u v w h b ua va)
         \<and> val (dm dt u v w h b ua va)
            = 2 * pi * (sqrt 2 * 0.057) * val b * val h * val (delta_u u v w ua va) * val dt"
proof -
  have "is_finite (Fin 2 * np_pi) \<and> val (Fin 2 * np_pi) = 2 * pi"
    by (simp add: np_pi_def times_fin)
  with assms alpha_s_fin show ?thesis
    by (simp add: dm_def times_fin)
qed

text \<open>At rest the projection of the ambient velocity on the jet direction is 0 / 0.\<close>

lemma delta_u_nan:
  assumes "is_finite u" "is_finite v" "is_finite w" "is_finite ua" "is_finite va"
    and "val (vel u v w) = 0"
  shows "delta_u u v w ua va = NaN"
proof -
  have z: "val u = 0 \<and> val v = 0 \<and> val w = 0"
    using assms vel_fin [of u v w] by (simp add: add_nonneg_eq_0_iff)
  have "np_dot3 (ua, va, wa) (u, v, w) / vel u v w = NaN"
    using assms z vel_fin [of u v w] dot_fin [of u v w ua va]
    by (intro divide_zero_zero) simp_all
  then show ?thesis by (simp add: delta_u_def nan_arith)
qed

lemma dm_nan: "delta_u u v w ua va = NaN \<Longrightarrow> dm dt u v w h b ua va = NaN"
  by (simp add: dm_def nan_arith)

text \<open>A jet without vertical velocity that moves with the ambient current has no shear.\<close>

lemma delta_u_zero:
  assumes "is_finite u" "is_finite v" "is_finite w" "is_finite ua" "is_finite va"
    and "val (vel u v w) \<noteq> 0" "val w = 0" "val ua = val u" "val va = val v"
  shows "is_finite (delta_u u v w ua va) \<and> val (delta_u u v w ua va) = 0"
proof -
  let ?V = "val (vel u v w)"
  have V: "?V = sqrt ((val u)\<^sup>2 + (val v)\<^sup>2)"
    using assms vel_fin [of u v w] by simp
  have "?V * ?V = (val u)\<^sup>2 + (val v)\<^sup>2"
    unfolding V by simp
  then have "(val u * val u + val v * val v) / ?V = ?V"
    using assms(6) by (simp add: power2_eq_square divide_eq_eq)
  with delta_u_fin [of u v w ua va] assms show ?thesis by simp
qed

lemma vel_100: "is_finite (vel (Fin 1) (Fin 0) (Fin 0)) \<and> val (vel (Fin 1) (Fin 0) (Fin 0)) = 1"
  using vel_fin [of "Fin 1" "Fin 0" "Fin 0"] by simp

lemma vel_000: "is_finite (vel (Fin 0) (Fin 0) (Fin 0)) \<and> val (vel (Fin 0) (Fin 0) (Fin 0)) = 0"
  using vel_fin [of "Fin 0" "Fin 0" "Fin 0"] by simp


section \<open>The components of the returned state\<close>

lemma step_m_new:
  "m_new (pipe_discharge_single_timestep dt t m c rho u v w h b x y z ua va rho_a)
   = m + dm dt u v w h b ua va"
  by (simp add: pipe_discharge_single_timestep_def Let_def)

lemma step_rho_new:
  "rho_new (pipe_discharge_single_timestep dt t m c rho u v w h b x y z ua va rho_a)
   = (m * rho + dm dt u v w h b ua va * rho_a) / (m + dm dt u v w h b ua va)"
  by (simp add: pipe_discharge_single_timestep_def Let_def)




lemma step_w_new:
  "w_new (pipe_discharge_single_timestep dt t m c rho u v w h b x y z ua va rho_a)
   = m * w + (m + dm dt u v w h b ua va)
       * (((m * rho + dm dt u v w h b ua va * rho_a) / (m + dm dt u v w h b ua va) - rho_a)
          / ((m * rho + dm dt u v w h b ua va * rho_a) / (m + dm dt u v w h b ua va)))
       * g * dt"
  by (simp add: pipe_discharge_single_timestep_def Let_def)


section \<open>Bounds on \<open>pi\<close> and \<open>sqrt 2\<close>\<close>

text \<open>
  The cosine is enclosed by its Maclaurin polynomial of degree 10 and the remainder of
  order 12; its sign on both sides of \<open>pi / 2\<close> bounds \<open>pi\<close>.
\<close>

lemma sum12:
  "(\<Sum>k<12. f k) = f 0 + f 1 + f 2 + f 3 + f 4 + f 5 + f 6 + f 7 + f 8 + f 9 + f 10 + f 11"
  for f :: "nat \<Rightarrow> real"
  by (simp add: eval_nat_numeral)

lemma cos_poly12:
  "(\<Sum>k<12. cos_coeff k * x ^ k)
   = 1 - x^2 / 2 + x^4 / 24 - x^6 / 720 + x^8 / 40320 - x^10 / 3628800" for x :: real
  unfolding sum12 by (simp add: cos_coeff_def fact_numeral)

lemma cos_bounds12:
  fixes x :: real
  assumes "0 < x"
  shows "\<bar>cos x - (1 - x^2 / 2 + x^4 / 24 - x^6 / 720 + x^8 / 40320 - x^10 / 3628800)\<bar>
         \<le> x^12 / 479001600"
proof -
  obtain s where s: "cos x = (\<Sum>k<12. cos_coeff k * x ^ k)
      + (cos (s + 1/2 * real 12 * pi) / fact 12) * x ^ 12"
    using Maclaurin_cos_expansion2 [of x 12] assms by auto
  have f: "fact 12 = (479001600::real)" by (simp add: fact_numeral)
  let ?c = "cos (s + 1/2 * real 12 * pi)"
  have c: "\<bar>?c\<bar> \<le> 1" by (rule abs_cos_le_one)
  have "\<bar>?c / fact 12 * x ^ 12\<bar> = \<bar>?c\<bar> * (x ^ 12 / 479001600)"
    using assms by (simp add: abs_mult f)
  also have "\<dots> \<le> 1 * (x ^ 12 / 479001600)"
    using assms by (intro mult_right_mono c) simp
  finally have "\<bar>?c / fact 12 * x ^ 12\<bar> \<le> x ^ 12 / 479001600" by simp
  then show ?thesis using s unfolding cos_poly12 by linarith
qed

lemma pi_lower: "3.1415 < pi"
proof -
  let ?a = "6283 / 4000 :: real"
  have p: "?a^12 / 479001600
      < 1 - ?a^2 / 2 + ?a^4 / 24 - ?a^6 / 720 + ?a^8 / 40320 - ?a^10 / 3628800"
    by (simp add: power_divide)
  have pos: "0 < cos ?a"
    using cos_bounds12 [of ?a] p by (simp only: abs_le_iff) linarith
  have "?a < pi / 2"
  proof (rule ccontr)
    assume "\<not> ?a < pi / 2"
    then have "pi / 2 \<le> ?a" by simp
    moreover have "?a \<le> pi" using pi_ge_two by simp
    ultimately have "cos ?a \<le> cos (pi / 2)"
      by (intro cos_monotone_0_pi_le) simp_all
    with pos show False by simp
  qed
  then show ?thesis by simp
qed

lemma pi_upper: "pi < 3.142"
proof -
  let ?b = "1571 / 1000 :: real"
  have p: "1 - ?b^2 / 2 + ?b^4 / 24 - ?b^6 / 720 + ?b^8 / 40320 - ?b^10 / 3628800
      + ?b^12 / 479001600 < 0"
    by (simp add: power_divide)
  have neg: "cos ?b < 0"
    using cos_bounds12 [of ?b] p by (simp only: abs_le_iff) linarith
  have "pi / 2 < ?b"
  proof (rule ccontr)
    assume "\<not> pi / 2 < ?b"
    then have "?b \<le> pi / 2" by simp
    then have "cos (pi / 2) \<le> cos ?b"
      by (intro cos_monotone_0_pi_le) simp_all
    with neg show False by simp
  qed
  then show ?thesis by simp
qed

lemma sqrt2_lower: "1.41421 < sqrt 2"
  by (rule real_less_rsqrt) (simp add: power2_eq_square)

lemma sqrt2_upper: "sqrt 2 < 1.41422"
  by (rule real_less_lsqrt) (simp_all add: power2_eq_square)

lemma pi_sqrt2_bounds: "4.4427 < pi * sqrt 2 \<and> pi * sqrt 2 < 4.4435"
proof -
  have "3.1415 * 1.41421 < pi * sqrt 2"
    using pi_lower sqrt2_lower by (intro mult_strict_mono) simp_all
  moreover have "pi * sqrt 2 < 3.142 * 1.41422"
    using pi_upper sqrt2_upper by (intro mult_strict_mono) simp_all
  ultimately show ?thesis by simp
qed

section \<open>The reference scenario\<close>

text \<open>
  Mass 100, density 1025, velocity (1, 0, 0), thickness 1, radius 0.178, still ambient
  water of density 1000, \<open>dt = 1\<close>.
\<close>

lemma delta_u_scenario:
  "is_finite (delta_u (Fin 1) (Fin 0) (Fin 0) (Fin 0) (Fin 0))
   \<and> val (delta_u (Fin 1) (Fin 0) (Fin 0) (Fin 0) (Fin 0)) = 1"
  using delta_u_fin [of "Fin 1" "Fin 0" "Fin 0" "Fin 0" "Fin 0"] vel_100 by simp

lemma dm_scenario:
  "is_finite (dm (Fin 1) (Fin 1) (Fin 0) (Fin 0) (Fin 1) (Fin 0.178) (Fin 0) (Fin 0))
   \<and> val (dm (Fin 1) (Fin 1) (Fin 0) (Fin 0) (Fin 1) (Fin 0.178) (Fin 0) (Fin 0))
      = 2 * pi * (sqrt 2 * 0.057) * 0.178 * 1 * 1 * 1"
  using dm_fin [of "Fin 1" "Fin 0.178" "Fin 1" "Fin 1" "Fin 0" "Fin 0" "Fin 0" "Fin 0"]
    delta_u_scenario by simp

lemma dm_scenario_bounds:
  "0.09015 < val (dm (Fin 1) (Fin 1) (Fin 0) (Fin 0) (Fin 1) (Fin 0.178) (Fin 0) (Fin 0))
   \<and> val (dm (Fin 1) (Fin 1) (Fin 0) (Fin 0) (Fin 1) (Fin 0.178) (Fin 0) (Fin 0)) < 0.09025"
proof -
  let ?d = "dm (Fin 1) (Fin 1) (Fin 0) (Fin 0) (Fin 1) (Fin 0.178) (Fin 0) (Fin 0)"
  have "val ?d = 0.020292 * (pi * sqrt 2)" using dm_scenario by simp
  with pi_sqrt2_bounds show ?thesis by simp
qed



section \<open>Vertical velocity\<close>

text \<open>
  Claim C1. With nonzero jet speed, new mass and new density, the returned vertical velocity
  is said to be the buoyancy-updated vertical momentum divided by the new mass,
  \<open>(m w + m_new ((rho_new - rho_a) / rho_new) g dt) / m_new\<close>. Line 53 of the source
  computes the momentum and returns it as \<open>w_new\<close> without the division that the
  horizontal components \<open>u_new\<close> and \<open>v_new\<close> have. For a jet of mass 100 and density 1025
  moving at (1, 0, 0) with the ambient current, in water of density 1000 and with
  \<open>dt = 1\<close>, nothing is entrained, the new mass is 100 and the new density 1025; the step
  returns \<open>w_new = 981 / 41\<close> (about 23.9), where the formula of the claim gives
  \<open>981 / 4100\<close> (about 0.239).
\<close>

theorem vertical_velocity_not_renormalised:
  "is_finite (w_new (pipe_discharge_single_timestep (Fin 1) (Fin 0) (Fin 100) (Fin 1) (Fin 1025)
        (Fin 1) (Fin 0) (Fin 0) (Fin 1) (Fin 0.178) (Fin 0) (Fin 0) (Fin 0) (Fin 1) (Fin 0) (Fin 1000)))
   \<and> val (w_new (pipe_discharge_single_timestep (Fin 1) (Fin 0) (Fin 100) (Fin 1) (Fin 1025)
        (Fin 1) (Fin 0) (Fin 0) (Fin 1) (Fin 0.178) (Fin 0) (Fin 0) (Fin 0) (Fin 1) (Fin 0) (Fin 1000))) = 981 / 41
   \<and> is_finite (m_new (pipe_discharge_single_timestep (Fin 1) (Fin 0) (Fin 100) (Fin 1) (Fin 1025)
        (Fin 1) (Fin 0) (Fin 0) (Fin 1) (Fin 0.178) (Fin 0) (Fin 0) (Fin 0) (Fin 1) (Fin 0) (Fin 1000)))
   \<and> val (m_new (pipe_discharge_single_timestep (Fin 1) (Fin 0) (Fin 100) (Fin 1) (Fin 1025)
        (Fin 1) (Fin 0) (Fin 0) (Fin 1) (Fin 0.178) (Fin 0) (Fin 0) (Fin 0) (Fin 1) (Fin 0) (Fin 1000))) = 100
   \<and> is_finite (rho_new (pipe_discharge_single_timestep (Fin 1) (Fin 0) (Fin 100) (Fin 1) (Fin 1025)
        (Fin 1) (Fin 0) (Fin 0) (Fin 1) (Fin 0.178) (Fin 0) (Fin 0) (Fin 0) (Fin 1) (Fin 0) (Fin 1000)))
   \<and> val (rho_new (pipe_discharge_single_timestep (Fin 1) (Fin 0) (Fin 100) (Fin 1) (Fin 1025)
        (Fin 1) (Fin 0) (Fin 0) (Fin 1) (Fin 0.178) (Fin 0) (Fin 0) (Fin 0) (Fin 1) (Fin 0) (Fin 1000))) = 1025
   \<and> (val (Fin 100) * val (Fin 0)
        + val (m_new (pipe_discharge_single_timestep (Fin 1) (Fin 0) (Fin 100) (Fin 1) (Fin 1025)
        (Fin 1) (Fin 0) (Fin 0) (Fin 1) (Fin 0.178) (Fin 0) (Fin 0) (Fin 0) (Fin 1) (Fin 0) (Fin 1000)))
          * ((val (rho_new (pipe_discharge_single_timestep (Fin 1) (Fin 0) (Fin 100) (Fin 1) (Fin 1025)
        (Fin 1) (Fin 0) (Fin 0) (Fin 1) (Fin 0.178) (Fin 0) (Fin 0) (Fin 0) (Fin 1) (Fin 0) (Fin 1000))) - val (Fin 1000))
             / val (rho_new (pipe_discharge_single_timestep (Fin 1) (Fin 0) (Fin 100) (Fin 1) (Fin 1025)
        (Fin 1) (Fin 0) (Fin 0) (Fin 1) (Fin 0.178) (Fin 0) (Fin 0) (Fin 0) (Fin 1) (Fin 0) (Fin 1000)))) * 9.81 * val (Fin 1))
       / val (m_new (pipe_discharge_single_timestep (Fin 1) (Fin 0) (Fin 100) (Fin 1) (Fin 1025)
        (Fin 1) (Fin 0) (Fin 0) (Fin 1) (Fin 0.178) (Fin 0) (Fin 0) (Fin 0) (Fin 1) (Fin 0) (Fin 1000))) = 981 / 4100"
proof -
  let ?d = "dm (Fin 1) (Fin 1) (Fin 0) (Fin 0) (Fin 1) (Fin 0.178) (Fin 1) (Fin 0)"
  have v: "val (vel (Fin 1) (Fin 0) (Fin 0)) \<noteq> 0" using vel_100 by simp
  have "is_finite (delta_u (Fin 1) (Fin 0) (Fin 0) (Fin 1) (Fin 0)) \<and> val (delta_u (Fin 1) (Fin 0) (Fin 0) (Fin 1) (Fin 0)) = 0"
    by (rule delta_u_zero [OF fin_Fin fin_Fin fin_Fin fin_Fin fin_Fin v]) simp_all
  then have d: "is_finite ?d" "val ?d = 0"
    using dm_fin [of "Fin 1" "Fin 0.178" "Fin 1" "Fin 1" "Fin 0" "Fin 0" "Fin 1" "Fin 0"] by simp_all
  have mn: "is_finite (Fin 100 + ?d)" "val (Fin 100 + ?d) = 100"
    using d by (simp_all add: plus_fin)
  have rn: "is_finite ((Fin 100 * Fin 1025 + ?d * Fin 1000) / (Fin 100 + ?d))"
    "val ((Fin 100 * Fin 1025 + ?d * Fin 1000) / (Fin 100 + ?d)) = 1025"
    using d mn by (simp_all add: plus_fin times_fin divide_fin)
  have g: "is_finite g" "val g = 9.81" by (simp_all add: g_def)
  have w: "is_finite (Fin 100 * Fin 0 + (Fin 100 + ?d)
       * (((Fin 100 * Fin 1025 + ?d * Fin 1000) / (Fin 100 + ?d) - Fin 1000)
          / ((Fin 100 * Fin 1025 + ?d * Fin 1000) / (Fin 100 + ?d)))
       * g * Fin 1)"
    "val (Fin 100 * Fin 0 + (Fin 100 + ?d)
       * (((Fin 100 * Fin 1025 + ?d * Fin 1000) / (Fin 100 + ?d) - Fin 1000)
          / ((Fin 100 * Fin 1025 + ?d * Fin 1000) / (Fin 100 + ?d)))
       * g * Fin 1) = 981 / 41"
    using d mn rn g by (simp_all add: plus_fin minus_fin times_fin divide_fin)
  show ?thesis
    unfolding step_m_new step_rho_new step_w_new
    using mn rn w by simp
qed

section \<open>Steady state without entrainment\<close>




section \<open>The new mass is not checked\<close>




section \<open>A jet at rest\<close>

text \<open>
  Claim C4, as amended. The source divides by the jet speed without a guard: with
  \<open>u = v = w = 0\<close> the projection of the ambient velocity is 0 / 0, which is NaN and
  no error. For all finite velocities of zero magnitude and finite ambient velocities
  the step returns the state whose time is \<open>t + dt\<close> and whose other eleven components
  are all NaN.
\<close>

theorem at_rest_step_returns_nan:
  assumes "is_finite u" "is_finite v" "is_finite w" "is_finite ua" "is_finite va"
    and "val (vel u v w) = 0"
  shows "pipe_discharge_single_timestep dt t m c rho u v w h b x y z ua va rho_a
    = \<lparr>t_new = t + dt, m_new = NaN, c_new = NaN, rho_new = NaN, u_new = NaN, v_new = NaN,
       w_new = NaN, h_new = NaN, b_new = NaN, x_new = NaN, y_new = NaN, z_new = NaN\<rparr>"
proof -
  have "delta_u u v w ua va = NaN"
    using assms by (rule delta_u_nan)
  then have "dm dt u v w h b ua va = NaN"
    by (rule dm_nan)
  then show ?thesis
    by (simp add: pipe_discharge_single_timestep_def Let_def nan_arith)
qed

theorem at_rest_step_returns_nan_witness:
  "val (vel (Fin 0) (Fin 0) (Fin 0)) = 0
   \<and> pipe_discharge_single_timestep (Fin 1) (Fin 0) (Fin 100) (Fin 1) (Fin 1025)
        (Fin 0) (Fin 0) (Fin 0) (Fin 1) (Fin 0.178) (Fin 0) (Fin 0) (Fin 0) (Fin 0) (Fin 0) (Fin 1000)
     = \<lparr>t_new = (Fin 0) + (Fin 1), m_new = NaN, c_new = NaN, rho_new = NaN, u_new = NaN, v_new = NaN,
       w_new = NaN, h_new = NaN, b_new = NaN, x_new = NaN, y_new = NaN, z_new = NaN\<rparr>"
proof -
  have h: "val (vel (Fin 0) (Fin 0) (Fin 0)) = 0" using vel_000 by simp
  show ?thesis
    by (rule conjI [OF h at_rest_step_returns_nan [OF fin_Fin fin_Fin fin_Fin fin_Fin fin_Fin h]])
qed

text \<open>
  The claim as stated fails: for the jet of the reference scenario at rest the step
  returns a state, and the mass in it is NaN.
\<close>

theorem at_rest_no_domain_error:
  "val (vel (Fin 0) (Fin 0) (Fin 0)) = 0
   \<and> is_nan (m_new (pipe_discharge_single_timestep (Fin 1) (Fin 0) (Fin 100) (Fin 1) (Fin 1025)
        (Fin 0) (Fin 0) (Fin 0) (Fin 1) (Fin 0.178) (Fin 0) (Fin 0) (Fin 0) (Fin 0) (Fin 0) (Fin 1000)))"
proof -
  have "delta_u (Fin 0) (Fin 0) (Fin 0) (Fin 0) (Fin 0) = NaN"
    by (rule delta_u_nan) (simp_all add: vel_000)
  then have "dm (Fin 1) (Fin 0) (Fin 0) (Fin 0) (Fin 1) (Fin 0.178) (Fin 0) (Fin 0) = NaN"
    by (rule dm_nan)
  then show ?thesis by (simp add: step_m_new nan_arith vel_000)
qed

section \<open>Entrainment\<close>



section \<open>Mixing in the entrained fluid\<close>



section \<open>Mass does not decrease\<close>



section \<open>The first step of the reference scenario\<close>

text \<open>
  Claim C8. For mass 100, density 1025, velocity (1, 0, 0), thickness 1, radius 0.178, the
  ambient sample (0, 0, 1000) and \<open>dt = 1\<close>, the entrained mass is
  \<open>2 pi (sqrt 2 * 0.057) 0.178\<close>, which is 0.0902 to within 0.00005; the new mass is 100.09
  to within 0.0005; the new density lies strictly between 1000 and 1025.
\<close>

theorem scenario_first_step:
  "is_finite (dm (Fin 1) (Fin 1) (Fin 0) (Fin 0) (Fin 1) (Fin 0.178) (Fin 0) (Fin 0))
   \<and> val (dm (Fin 1) (Fin 1) (Fin 0) (Fin 0) (Fin 1) (Fin 0.178) (Fin 0) (Fin 0))
      = 2 * pi * (sqrt 2 * 0.057) * 0.178 * 1 * 1 * 1
   \<and> \<bar>val (dm (Fin 1) (Fin 1) (Fin 0) (Fin 0) (Fin 1) (Fin 0.178) (Fin 0) (Fin 0)) - 0.0902\<bar> < 0.00005
   \<and> is_finite (m_new (pipe_discharge_single_timestep (Fin 1) t (Fin 100) c (Fin 1025)
        (Fin 1) (Fin 0) (Fin 0) (Fin 1) (Fin 0.178) x y z (Fin 0) (Fin 0) (Fin 1000)))
   \<and> val (m_new (pipe_discharge_single_timestep (Fin 1) t (Fin 100) c (Fin 1025)
        (Fin 1) (Fin 0) (Fin 0) (Fin 1) (Fin 0.178) x y z (Fin 0) (Fin 0) (Fin 1000)))
      = 100 + val (dm (Fin 1) (Fin 1) (Fin 0) (Fin 0) (Fin 1) (Fin 0.178) (Fin 0) (Fin 0))
   \<and> \<bar>val (m_new (pipe_discharge_single_timestep (Fin 1) t (Fin 100) c (Fin 1025)
        (Fin 1) (Fin 0) (Fin 0) (Fin 1) (Fin 0.178) x y z (Fin 0) (Fin 0) (Fin 1000))) - 100.09\<bar>
      < 0.0005
   \<and> is_finite (rho_new (pipe_discharge_single_timestep (Fin 1) t (Fin 100) c (Fin 1025)
        (Fin 1) (Fin 0) (Fin 0) (Fin 1) (Fin 0.178) x y z (Fin 0) (Fin 0) (Fin 1000)))
   \<and> 1000 < val (rho_new (pipe_discharge_single_timestep (Fin 1) t (Fin 100) c (Fin 1025)
        (Fin 1) (Fin 0) (Fin 0) (Fin 1) (Fin 0.178) x y z (Fin 0) (Fin 0) (Fin 1000)))
   \<and> val (rho_new (pipe_discharge_single_timestep (Fin 1) t (Fin 100) c (Fin 1025)
        (Fin 1) (Fin 0) (Fin 0) (Fin 1) (Fin 0.178) x y z (Fin 0) (Fin 0) (Fin 1000))) < 1025"
proof -
  let ?d = "dm (Fin 1) (Fin 1) (Fin 0) (Fin 0) (Fin 1) (Fin 0.178) (Fin 0) (Fin 0)"
  have d: "is_finite ?d" "val ?d = 2 * pi * (sqrt 2 * 0.057) * 0.178 * 1 * 1 * 1"
    using dm_scenario by simp_all
  have b: "0.09015 < val ?d" "val ?d < 0.09025"
    using dm_scenario_bounds by simp_all
  have mn: "is_finite (Fin 100 + ?d)" "val (Fin 100 + ?d) = 100 + val ?d"
    using d(1) by (simp_all add: plus_fin)
  have pos: "0 < 100 + val ?d" using b by simp
  have rn: "is_finite ((Fin 100 * Fin 1025 + ?d * Fin 1000) / (Fin 100 + ?d))"
    "val ((Fin 100 * Fin 1025 + ?d * Fin 1000) / (Fin 100 + ?d))
     = (100 * 1025 + val ?d * 1000) / (100 + val ?d)"
    using d(1) mn pos by (simp_all add: plus_fin times_fin divide_fin)
  have r1: "1000 < val ((Fin 100 * Fin 1025 + ?d * Fin 1000) / (Fin 100 + ?d))"
    unfolding rn(2) using pos by (simp add: less_divide_eq)
  have r2: "val ((Fin 100 * Fin 1025 + ?d * Fin 1000) / (Fin 100 + ?d)) < 1025"
    unfolding rn(2) using pos b by (simp add: divide_less_eq)
  have a1: "\<bar>val ?d - 0.0902\<bar> < 0.00005" unfolding abs_diff_less_iff using b by simp
  have a2: "\<bar>val (Fin 100 + ?d) - 100.09\<bar> < 0.0005"
    unfolding abs_diff_less_iff using b mn(2) by simp
  show ?thesis
    unfolding step_m_new step_rho_new
    by (intro conjI d a1 mn a2 rn(1) r1 r2)
qed

section \<open>Tracer\<close>



section \<open>The dataset is always empty\<close>

text \<open>
  Claim C10. \<^verbatim>\<open>pipe_discharge()\<close> returns a dataset whose only coordinate, \<open>time\<close>, and
  whose only data variable, \<open>density\<close>, both hold no data; \<^verbatim>\<open>jet(time, density)\<close> returns
  that same dataset whatever its two arguments are.
\<close>

theorem pipe_discharge_empty_dataset:
  "jet time density = pipe_discharge
   \<and> map (\<lambda>(n, var). (n, data var)) (coords pipe_discharge) = [(''time'', [])]
   \<and> map (\<lambda>(n, var). (n, data var)) (data_vars pipe_discharge) = [(''density'', [])]"
  by (simp add: pipe_discharge_def jet_def)

end
